theory Spec2Isabelle
  imports Main
begin

section \<open>The request dispatcher of \<open>asgi_webdav/server.py\<close>\<close>

text \<open>
  The module server.py is the entry point of the WebDAV server: the class \<open>Server\<close>
  (its constructor, \<open>__call__\<close> and \<open>handle\<close>) and the factory \<open>get_app\<close>. Everything
  else it calls (\<open>DAVAuth\<close>, \<open>WebDAV\<close>, \<open>WebPage\<close>, \<open>DAVRequest\<close>, \<open>DAVResponse\<close>) lives
  in other modules. Those collaborators are parameters of the model: an object is a
  record of its methods, a method is a function on the state \<open>'w\<close> shared by the
  collaborators, and a call either returns a value or raises. Calls to the logger
  are left out: they produce no value the dispatcher uses. \<open>get_app\<close> loads the
  configuration, constructs the \<open>Server\<close> and wraps it in middleware of other
  packages; of it only the construction of the \<open>Server\<close> is modelled.
\<close>

subsection \<open>Python values\<close>

text \<open>A Python \<open>str\<close> is a sequence of Unicode code points, \<open>bytes\<close> a sequence of octets.\<close>

type_synonym str = "nat list"
type_synonym bytes = "nat list"

definition text_of :: "string \<Rightarrow> str" where
  "text_of s = map of_char s"

datatype exn =
    NotASGIRequestException str
  | ProviderInitException str
  | SystemExit
  | IndexError
  | UnicodeEncodeError
  | OtherException str

text \<open>
  \<open>s.encode("utf-8")\<close> and \<open>bytes(s, encoding="utf-8")\<close>: one to four octets per code
  point; a surrogate (U+D800 to U+DFFF) cannot be encoded and raises
  \<open>UnicodeEncodeError\<close>. Numbers above U+10FFFF are no code points and never occur in
  a \<open>str\<close>; the model rejects them the same way.
\<close>

definition utf8_char :: "nat \<Rightarrow> exn + bytes" where
  "utf8_char c =
     (if c < 0x80 then Inr [c]
      else if c < 0x800 then Inr [0xC0 + c div 0x40, 0x80 + c mod 0x40]
      else if c < 0x10000 then
        (if 0xD800 \<le> c \<and> c \<le> 0xDFFF then Inl UnicodeEncodeError
         else Inr [0xE0 + c div 0x1000, 0x80 + c div 0x40 mod 0x40, 0x80 + c mod 0x40])
      else if c < 0x110000 then
        Inr [0xF0 + c div 0x40000, 0x80 + c div 0x1000 mod 0x40,
             0x80 + c div 0x40 mod 0x40, 0x80 + c mod 0x40]
      else Inl UnicodeEncodeError)"

fun encode_utf8 :: "str \<Rightarrow> exn + bytes" where
  "encode_utf8 [] = Inr []"
| "encode_utf8 (c # cs) =
     (case utf8_char c of
        Inl e \<Rightarrow> Inl e
      | Inr bs \<Rightarrow> (case encode_utf8 cs of Inl e \<Rightarrow> Inl e | Inr rest \<Rightarrow> Inr (bs @ rest)))"

text \<open>
  The reading of UTF-8 back into code points. server.py never decodes; the function
  is here to state that encoding loses nothing of the text.
\<close>

fun decode_utf8 :: "bytes \<Rightarrow> str option" where
  "decode_utf8 [] = Some []"
| "decode_utf8 (b # bs) =
     (if b < 0x80 then map_option ((#) b) (decode_utf8 bs)
      else if 0xC0 \<le> b \<and> b < 0xE0 then
        (case bs of
           b1 # r \<Rightarrow>
             map_option ((#) ((b - 0xC0) * 0x40 + (b1 - 0x80))) (decode_utf8 r)
         | _ \<Rightarrow> None)
      else if 0xE0 \<le> b \<and> b < 0xF0 then
        (case bs of
           b1 # b2 # r \<Rightarrow>
             map_option ((#) ((b - 0xE0) * 0x1000 + (b1 - 0x80) * 0x40 + (b2 - 0x80)))
               (decode_utf8 r)
         | _ \<Rightarrow> None)
      else if 0xF0 \<le> b \<and> b < 0xF8 then
        (case bs of
           b1 # b2 # b3 # r \<Rightarrow>
             map_option
               ((#) ((b - 0xF0) * 0x40000 + (b1 - 0x80) * 0x1000 + (b2 - 0x80) * 0x40
                     + (b3 - 0x80)))
               (decode_utf8 r)
         | _ \<Rightarrow> None)
      else None)"

subsection \<open>Requests and responses\<close>

text \<open>
  Of a request, server.py reads \<open>method\<close> and \<open>src_path\<close> (its \<open>count\<close> and \<open>parts\<close>) and
  writes \<open>user\<close>. Of a response it sets \<open>status\<close> and \<open>content\<close> and reads \<open>status\<close>;
  \<open>headers\<close> holds the header entries a caller passes to the constructor, and
  server.py passes none (\<open>new_DAVResponse\<close>).
\<close>

datatype DAVUser = DAVUser str

record DAVPath =
  parts :: "str list"
  count :: int

record DAVRequest =
  method' :: str
  src_path :: DAVPath
  user :: "DAVUser option"

record DAVResponse =
  status :: int
  content :: bytes
  headers :: "(str \<times> str) list"

definition new_DAVResponse :: "int \<Rightarrow> bytes \<Rightarrow> DAVResponse" where
  "new_DAVResponse st body = \<lparr>status = st, content = body, headers = []\<rparr>"

text \<open>
  Modelled from the spec: the constant \<open>DAVMethod.GET\<close> of \<open>asgi_webdav.constants\<close> is
  not under src/. The wire contract lists the method as \<open>GET\<close>, and server.py itself
  writes the method of its fallback request as the string \<open>"GET"\<close>.
\<close>

definition DAVMethod_GET :: str where
  "DAVMethod_GET = text_of ''GET''"

subsection \<open>Collaborators, state and the record of calls\<close>

text \<open>
  Every call of a collaborator is written to \<open>calls\<close> in the order the code makes
  them; a sent response is recorded with the call that sends it.
\<close>

datatype call =
    DAVRequest_new
  | DAVAuth_new
  | WebDAV_new
  | WebPage_new
  | Pick_out_user
  | Create_response_401
  | Enter
  | Distribute
  | Send_in_one_call DAVResponse

record 'w run =
  world :: 'w
  calls :: "call list"

definition invoke :: "call \<Rightarrow> ('w \<Rightarrow> (exn + 'a) \<times> 'w) \<Rightarrow> 'w run \<Rightarrow> (exn + 'a) \<times> 'w run" where
  "invoke c f s = (case f (world s) of (r, w) \<Rightarrow> (r, \<lparr>world = w, calls = calls s @ [c]\<rparr>))"

record 'w DAVAuth =
  pick_out_user :: "DAVRequest \<Rightarrow> 'w \<Rightarrow> (exn + DAVUser option \<times> str) \<times> 'w"
  create_response_401 :: "DAVRequest \<Rightarrow> str \<Rightarrow> 'w \<Rightarrow> (exn + DAVResponse) \<times> 'w"

record 'w WebDAV =
  distribute :: "DAVRequest \<Rightarrow> 'w \<Rightarrow> (exn + DAVResponse) \<times> 'w"

record 'w WebPage =
  enter :: "DAVRequest \<Rightarrow> 'w \<Rightarrow> (exn + int \<times> str) \<times> 'w"

record 'w Server =
  dav_auth :: "'w DAVAuth"
  web_dav :: "'w WebDAV"
  web_page :: "'w WebPage"

subsection \<open>\<open>Server.handle\<close>\<close>

text \<open>
  The test of lines 76 to 80, with Python's left-to-right \<open>and\<close>: \<open>parts[0]\<close> is read
  only when the first two conjuncts hold, and raises \<open>IndexError\<close> on an empty
  sequence.
\<close>

definition admin_request :: "DAVRequest \<Rightarrow> exn + bool" where
  "admin_request request =
     (if method' request = DAVMethod_GET \<and> count (src_path request) \<ge> 1 then
        (case parts (src_path request) of
           [] \<Rightarrow> Inl IndexError
         | p # _ \<Rightarrow> Inr (p = text_of ''_''))
      else Inr False)"

text \<open>
  \<open>handle\<close> assigns \<open>request.user\<close>, so the request object is part of what it leaves
  behind: the model returns the outcome (a response, or the exception raised), the
  request as updated, and the state. The model follows one request from its first
  call to its last; what other requests do in between is not part of it.
\<close>

definition handle ::
  "'w Server \<Rightarrow> DAVRequest \<Rightarrow> 'w run \<Rightarrow> (exn + DAVResponse) \<times> DAVRequest \<times> 'w run" where
  "handle self request0 s0 =
     (case invoke Pick_out_user (pick_out_user (dav_auth self) request0) s0 of
        (Inl e, s1) \<Rightarrow> (Inl e, request0, s1)
      | (Inr (u, message), s1) \<Rightarrow>
          let request = request0\<lparr>user := u\<rparr> in
          if u = None then
            (case invoke Create_response_401
                    (create_response_401 (dav_auth self) request message) s1 of
               (r, s2) \<Rightarrow> (r, request, s2))
          else
            (case admin_request request of
               Inl e \<Rightarrow> (Inl e, request, s1)
             | Inr True \<Rightarrow>
                 (case invoke Enter (enter (web_page self) request) s1 of
                    (Inl e, s2) \<Rightarrow> (Inl e, request, s2)
                  | (Inr (st, data), s2) \<Rightarrow>
                      (case encode_utf8 data of
                         Inl e \<Rightarrow> (Inl e, request, s2)
                       | Inr body \<Rightarrow> (Inr (new_DAVResponse st body), request, s2)))
             | Inr False \<Rightarrow>
                 (case invoke Distribute (distribute (web_dav self) request) s1 of
                    (r, s2) \<Rightarrow> (r, request, s2))))"

text \<open>The calls made between two states of one run.\<close>

definition calls_since :: "'w run \<Rightarrow> 'w run \<Rightarrow> call list" where
  "calls_since s0 s = drop (length (calls s0)) (calls s)"

subsection \<open>\<open>Server.__call__\<close>\<close>

text \<open>
  An ASGI scope is a dictionary. \<open>DAVRequest(scope, receive, send)\<close> and
  \<open>response.send_in_one_call(request)\<close> belong to other modules; the channel
  (\<open>receive\<close>, \<open>send\<close>) is part of the state \<open>'w\<close>.
\<close>

datatype asgi_value = Str str | Bytes bytes | Seq "asgi_value list"





subsection \<open>\<open>Server.__init__\<close>\<close>

text \<open>
  The constructors of the three collaborators, called in the order of lines 33, 36
  and 42. \<open>sys.exit()\<close> raises \<open>SystemExit\<close>; only \<open>ProviderInitException\<close> is caught.
\<close>

record ('cfg, 'w) constructors =
  new_DAVAuth :: "'cfg \<Rightarrow> 'w \<Rightarrow> (exn + 'w DAVAuth) \<times> 'w"
  new_WebDAV :: "'cfg \<Rightarrow> 'w \<Rightarrow> (exn + 'w WebDAV) \<times> 'w"
  new_WebPage :: "'w \<Rightarrow> (exn + 'w WebPage) \<times> 'w"

definition Server_init ::
  "('cfg, 'w) constructors \<Rightarrow> 'cfg \<Rightarrow> 'w run \<Rightarrow> (exn + 'w Server) \<times> 'w run" where
  "Server_init m config s0 =
     (case invoke DAVAuth_new (new_DAVAuth m config) s0 of
        (Inl e, s1) \<Rightarrow> (Inl e, s1)
      | (Inr auth, s1) \<Rightarrow>
          (case invoke WebDAV_new (new_WebDAV m config) s1 of
             (Inl (ProviderInitException msg), s2) \<Rightarrow> (Inl SystemExit, s2)
           | (Inl e, s2) \<Rightarrow> (Inl e, s2)
           | (Inr dav, s2) \<Rightarrow>
               (case invoke WebPage_new (new_WebPage m) s2 of
                  (Inl e, s3) \<Rightarrow> (Inl e, s3)
                | (Inr page, s3) \<Rightarrow>
                    (Inr \<lparr>dav_auth = auth, web_dav = dav, web_page = page\<rparr>, s3))))"

subsection \<open>The 401 response\<close>

text \<open>
  The two authentication schemes of the spec, "a plaintext-equivalent scheme and a
  nonce-challenge scheme". How a nonce is drawn and how the challenge of a scheme is
  written are parameters.
\<close>

datatype scheme = Plaintext_equivalent | Nonce_challenge

definition supported_schemes :: "scheme list" where
  "supported_schemes = [Plaintext_equivalent, Nonce_challenge]"

record 'w challenger =
  issue_nonce :: "'w \<Rightarrow> str \<times> 'w"
  challenge :: "scheme \<Rightarrow> str \<Rightarrow> str"

text \<open>
  Modelled from the spec: \<open>DAVAuth.create_response_401\<close> is not under src/. The spec
  says of it: a failed authentication "returns 401 with both challenge headers
  present; never reveals which part of the credential was wrong"; the challenge
  response carries "a fresh Nonce"; \<open>WWW-Authenticate\<close> has "one entry per supported
  scheme, on 401". The spec gives the response no body.
\<close>

definition spec_create_response_401 ::
  "'w challenger \<Rightarrow> DAVRequest \<Rightarrow> str \<Rightarrow> 'w \<Rightarrow> (exn + DAVResponse) \<times> 'w" where
  "spec_create_response_401 ch request message w =
     (case issue_nonce ch w of
        (nonce, w') \<Rightarrow>
          (Inr \<lparr>status = 401, content = [],
                headers = map (\<lambda>sch. (text_of ''WWW-Authenticate'', challenge ch sch nonce))
                            supported_schemes\<rparr>,
           w'))"

subsection \<open>Assumptions on the collaborators\<close>

text \<open>
  \<open>handle\<close> has no \<open>try\<close>: an exception a collaborator raises leaves \<open>handle\<close> as it
  is. The spec says of the collaborators that they "never throw past the Dispatcher
  -- they return explicit outcome values", that the administrative page's output
  "is an opaque status + body pair", and that provider-level errors "are translated
  at the Dispatcher boundary". \<open>collaborators_return\<close> states this of the four
  methods \<open>handle\<close> calls: each always returns, and the text of an administrative
  page can be encoded. \<open>path_wf\<close> is the invariant of \<open>DAVPath\<close> that \<open>count\<close> is the
  number of \<open>parts\<close>.
\<close>

definition collaborators_return :: "'w Server \<Rightarrow> bool" where
  "collaborators_return self =
     ((\<forall>request w. \<exists>v. fst (pick_out_user (dav_auth self) request w) = Inr v) \<and>
      (\<forall>request message w. \<exists>v.
          fst (create_response_401 (dav_auth self) request message w) = Inr v) \<and>
      (\<forall>request w. \<exists>st data body.
          fst (enter (web_page self) request w) = Inr (st, data) \<and>
          encode_utf8 data = Inr body) \<and>
      (\<forall>request w. \<exists>v. fst (distribute (web_dav self) request w) = Inr v))"

definition path_wf :: "DAVPath \<Rightarrow> bool" where
  "path_wf p = (count p = int (length (parts p)))"

subsection \<open>A small server, for concrete runs\<close>

text \<open>The text of the example's administrative page ends in the euro sign, U+20AC.\<close>

definition page_text :: str where
  "page_text = text_of ''ok '' @ [0x20AC]"

definition example_server :: "(DAVRequest \<Rightarrow> DAVUser option \<times> str) \<Rightarrow> nat Server" where
  "example_server decide =
     \<lparr>dav_auth =
        \<lparr>pick_out_user = (\<lambda>request w. (Inr (decide request), w)),
         create_response_401 = (\<lambda>request message w.
           (Inr \<lparr>status = 401, content = [],
                 headers = [(text_of ''WWW-Authenticate'', text_of ''Basic'')]\<rparr>,
            Suc w))\<rparr>,
      web_dav =
        \<lparr>distribute = (\<lambda>request w. (Inr \<lparr>status = 207, content = [], headers = []\<rparr>, w))\<rparr>,
      web_page = \<lparr>enter = (\<lambda>request w. (Inr (200, page_text), w))\<rparr>\<rparr>"

definition example_request :: "string \<Rightarrow> string list \<Rightarrow> DAVRequest" where
  "example_request m ps =
     \<lparr>method' = text_of m,
      src_path = \<lparr>parts = map text_of ps, count = int (length ps)\<rparr>,
      user = None\<rparr>"

definition alice :: DAVUser where
  "alice = DAVUser (text_of ''alice'')"

definition known_user :: "DAVRequest \<Rightarrow> DAVUser option \<times> str" where
  "known_user request = (Some alice, [])"

definition unknown_user :: "DAVRequest \<Rightarrow> DAVUser option \<times> str" where
  "unknown_user request =
     (None,
      if method' request = DAVMethod_GET then text_of ''no such user''
      else text_of ''nonce was used before'')"


definition example_constructors :: "(unit, nat) constructors" where
  "example_constructors =
     \<lparr>new_DAVAuth = (\<lambda>config w. (Inr (dav_auth (example_server unknown_user)), w)),
      new_WebDAV = (\<lambda>config w. (Inl (ProviderInitException (text_of ''no root'')), Suc w)),
      new_WebPage = (\<lambda>w. (Inr (web_page (example_server unknown_user)), w))\<rparr>"

definition start :: "nat run" where
  "start = \<lparr>world = 0, calls = []\<rparr>"

text \<open>The same server with the 401 response of the spec.\<close>

definition example_challenger :: "nat challenger" where
  "example_challenger =
     \<lparr>issue_nonce = (\<lambda>w. ([w], Suc w)),
      challenge = (\<lambda>sch nonce.
        case sch of
          Plaintext_equivalent \<Rightarrow> text_of ''Basic''
        | Nonce_challenge \<Rightarrow> text_of ''Digest '' @ nonce)\<rparr>"

definition example_spec_server :: "nat Server" where
  "example_spec_server =
     (example_server unknown_user)
       \<lparr>dav_auth :=
          (dav_auth (example_server unknown_user))
            \<lparr>create_response_401 := spec_create_response_401 example_challenger\<rparr>\<rparr>"

text \<open>
  Servers whose collaborators raise: a WebDAV dispatcher that fails on the storage,
  a credential check that reports a failure by raising, and a builder of the 401
  response that raises. The last class of requests accepts a scope only if it has a
  \<open>type\<close>, which the fallback scope of line 50 has not.
\<close>

definition failing_dav_server :: "nat Server" where
  "failing_dav_server =
     (example_server known_user)
       \<lparr>web_dav :=
          \<lparr>distribute = (\<lambda>request w. (Inl (OtherException (text_of ''disk full'')), w))\<rparr>\<rparr>"




section \<open>Properties\<close>

subsection \<open>UTF-8\<close>

lemma split64: "(x::nat) div 64 * (64 * k) + x mod 64 * k = x * k"
proof -
  have "x div 64 * (64 * k) + x mod 64 * k = (x div 64 * 64 + x mod 64) * k"
    by (simp only: add_mult_distrib mult.assoc)
  then show ?thesis by simp
qed

lemma join3: "(c::nat) div 4096 * 4096 + c div 64 mod 64 * 64 + c mod 64 = c"
proof -
  have "c div 4096 = c div 64 div 64" by (simp add: div_mult2_eq)
  then have "c div 4096 * 4096 + c div 64 mod 64 * 64 = c div 64 * 64"
    using split64 [of "c div 64" 64] by simp
  then show ?thesis by simp
qed

lemma join4:
  "(c::nat) div 262144 * 262144 + c div 4096 mod 64 * 4096 + c div 64 mod 64 * 64 + c mod 64 = c"
proof -
  have "c div 262144 = c div 4096 div 64" by (simp add: div_mult2_eq)
  then have "c div 262144 * 262144 + c div 4096 mod 64 * 4096 = c div 4096 * 4096"
    using split64 [of "c div 4096" 4096] by simp
  then show ?thesis using join3 [of c] by simp
qed

lemma utf8_char_decode:
  assumes "utf8_char c = Inr bs"
  shows "decode_utf8 (bs @ rest) = map_option ((#) c) (decode_utf8 rest)"
proof -
  consider (one) "c < 0x80"
    | (two) "0x80 \<le> c" "c < 0x800"
    | (three) "0x800 \<le> c" "c < 0x10000" "\<not> (0xD800 \<le> c \<and> c \<le> 0xDFFF)"
    | (four) "0x10000 \<le> c" "c < 0x110000"
    using assms by (auto simp: utf8_char_def split: if_splits)
  then show ?thesis
  proof cases
    case one
    with assms show ?thesis by (auto simp: utf8_char_def)
  next
    case two
    then have "c div 64 < 32" by (simp add: less_mult_imp_div_less)
    with two assms show ?thesis by (auto simp: utf8_char_def)
  next
    case three
    then have "c div 4096 < 16" by (simp add: less_mult_imp_div_less)
    with three assms show ?thesis by (auto simp: utf8_char_def join3)
  next
    case four
    then have "c div 262144 < 8" by (simp add: less_mult_imp_div_less)
    with four assms show ?thesis by (auto simp: utf8_char_def join4)
  qed
qed

lemma decode_encode_utf8: "encode_utf8 s = Inr bs \<Longrightarrow> decode_utf8 bs = Some s"
proof (induction s arbitrary: bs)
  case Nil
  then show ?case by simp
next
  case (Cons c cs)
  then show ?case
    by (auto split: sum.splits simp: utf8_char_decode)
qed

subsection \<open>What handle does on each path\<close>

lemma admin_request_user: "admin_request (request\<lparr>user := u\<rparr>) = admin_request request"
  by (simp add: admin_request_def)

lemma handle_auth_raised:
  assumes "pick_out_user (dav_auth self) request (world s0) = (Inl e, w1)"
  shows "handle self request s0 =
           (Inl e, request, \<lparr>world = w1, calls = calls s0 @ [Pick_out_user]\<rparr>)"
  using assms by (simp add: handle_def invoke_def)

lemma handle_auth_failed:
  assumes "pick_out_user (dav_auth self) request (world s0) = (Inr (None, message), w1)"
  shows "handle self request s0 =
           (case create_response_401 (dav_auth self) (request\<lparr>user := None\<rparr>) message w1 of
              (r, w2) \<Rightarrow>
                (r, request\<lparr>user := None\<rparr>,
                 \<lparr>world = w2, calls = calls s0 @ [Pick_out_user, Create_response_401]\<rparr>))"
  using assms by (simp add: handle_def invoke_def split: prod.splits)

lemma handle_admin:
  assumes "pick_out_user (dav_auth self) request (world s0) = (Inr (Some u, message), w1)"
    and "admin_request request = Inr True"
  shows "handle self request s0 =
           (case enter (web_page self) (request\<lparr>user := Some u\<rparr>) w1 of
              (Inl e, w2) \<Rightarrow>
                (Inl e, request\<lparr>user := Some u\<rparr>,
                 \<lparr>world = w2, calls = calls s0 @ [Pick_out_user, Enter]\<rparr>)
            | (Inr (st, data), w2) \<Rightarrow>
                (case encode_utf8 data of
                   Inl e \<Rightarrow>
                     (Inl e, request\<lparr>user := Some u\<rparr>,
                      \<lparr>world = w2, calls = calls s0 @ [Pick_out_user, Enter]\<rparr>)
                 | Inr body \<Rightarrow>
                     (Inr (new_DAVResponse st body), request\<lparr>user := Some u\<rparr>,
                      \<lparr>world = w2, calls = calls s0 @ [Pick_out_user, Enter]\<rparr>)))"
  using assms
  by (simp add: handle_def invoke_def admin_request_user split: prod.splits sum.splits)

lemma handle_dav:
  assumes "pick_out_user (dav_auth self) request (world s0) = (Inr (Some u, message), w1)"
    and "admin_request request = Inr False"
  shows "handle self request s0 =
           (case distribute (web_dav self) (request\<lparr>user := Some u\<rparr>) w1 of
              (r, w2) \<Rightarrow>
                (r, request\<lparr>user := Some u\<rparr>,
                 \<lparr>world = w2, calls = calls s0 @ [Pick_out_user, Distribute]\<rparr>))"
  using assms
  by (simp add: handle_def invoke_def admin_request_user split: prod.splits)

lemma handle_index_error:
  assumes "pick_out_user (dav_auth self) request (world s0) = (Inr (Some u, message), w1)"
    and "admin_request request = Inl e"
  shows "handle self request s0 =
           (Inl e, request\<lparr>user := Some u\<rparr>,
            \<lparr>world = w1, calls = calls s0 @ [Pick_out_user]\<rparr>)"
  using assms
  by (simp add: handle_def invoke_def admin_request_user split: prod.splits)

lemma handle_calls_first:
  "\<exists>rest. calls (snd (snd (handle self request s0))) = calls s0 @ Pick_out_user # rest"
  by (auto simp: handle_def invoke_def Let_def split: prod.splits sum.splits bool.splits)

lemma handle_runs:
  "calls_since s0 (snd (snd (handle self request s0))) \<in>
     {[Pick_out_user], [Pick_out_user, Create_response_401], [Pick_out_user, Enter],
      [Pick_out_user, Distribute]}"
proof -
  obtain r w1 where picked: "pick_out_user (dav_auth self) request (world s0) = (r, w1)"
    by (cases "pick_out_user (dav_auth self) request (world s0)")
  show ?thesis
  proof (cases r)
    case (Inl e)
    with handle_auth_raised [of self request s0 e w1] picked show ?thesis
      by (simp add: calls_since_def)
  next
    case (Inr answer)
    obtain u message where answer: "answer = (u, message)"
      by (cases answer)
    show ?thesis
    proof (cases u)
      case None
      with handle_auth_failed [of self request s0 message w1] picked Inr answer show ?thesis
        by (simp add: calls_since_def split: prod.splits)
    next
      case (Some v)
      with picked Inr answer have authenticated:
        "pick_out_user (dav_auth self) request (world s0) = (Inr (Some v, message), w1)"
        by simp
      show ?thesis
      proof (cases "admin_request request")
        case (Inl e)
        from handle_index_error [OF authenticated this] show ?thesis
          by (simp add: calls_since_def)
      next
        case route: (Inr b)
        show ?thesis
        proof (cases b)
          case True
          with route have "admin_request request = Inr True" by simp
          from handle_admin [OF authenticated this] show ?thesis
            by (simp add: calls_since_def split: prod.splits sum.splits)
        next
          case False
          with route have "admin_request request = Inr False" by simp
          from handle_dav [OF authenticated this] show ?thesis
            by (simp add: calls_since_def split: prod.splits)
        qed
      qed
    qed
  qed
qed

lemma admin_request_wf:
  "path_wf (src_path request) \<Longrightarrow> \<exists>b. admin_request request = Inr b"
  by (cases "parts (src_path request)") (auto simp: admin_request_def path_wf_def)


subsection \<open>The claims\<close>

text \<open>
  C1. For every request, the credential check is the first thing \<open>handle\<close> does: the
  first call it makes is \<open>pick_out_user\<close>. When that check identifies no user
  (it returns \<open>None\<close> with a message), \<open>handle\<close> ends with the answer of
  \<open>create_response_401\<close>, the 401 response, and the calls it made are these two and
  no other: neither the administrative page (\<open>enter\<close>) nor the WebDAV dispatcher
  (\<open>distribute\<close>) is called for the request.
\<close>

theorem C1_credential_check_first:
  "(\<exists>rest. calls (snd (snd (handle self request s0))) = calls s0 @ Pick_out_user # rest) \<and>
   (\<forall>message w1.
      pick_out_user (dav_auth self) request (world s0) = (Inr (None, message), w1) \<longrightarrow>
      fst (handle self request s0) =
        fst (create_response_401 (dav_auth self) (request\<lparr>user := None\<rparr>) message w1) \<and>
      calls_since s0 (snd (snd (handle self request s0))) = [Pick_out_user, Create_response_401] \<and>
      Enter \<notin> set (calls_since s0 (snd (snd (handle self request s0)))) \<and>
      Distribute \<notin> set (calls_since s0 (snd (snd (handle self request s0)))))"
proof (intro conjI allI impI)
  show "\<exists>rest. calls (snd (snd (handle self request s0))) = calls s0 @ Pick_out_user # rest"
    by (rule handle_calls_first)
next
  fix message w1
  assume failed: "pick_out_user (dav_auth self) request (world s0) = (Inr (None, message), w1)"
  obtain r w2 where
    built: "create_response_401 (dav_auth self) (request\<lparr>user := None\<rparr>) message w1 = (r, w2)"
    by (cases "create_response_401 (dav_auth self) (request\<lparr>user := None\<rparr>) message w1")
  have run: "handle self request s0 =
      (r, request\<lparr>user := None\<rparr>,
       \<lparr>world = w2, calls = calls s0 @ [Pick_out_user, Create_response_401]\<rparr>)"
    using handle_auth_failed [OF failed] built by simp
  show "fst (handle self request s0) =
      fst (create_response_401 (dav_auth self) (request\<lparr>user := None\<rparr>) message w1)"
    using run built by simp
  show made: "calls_since s0 (snd (snd (handle self request s0))) =
      [Pick_out_user, Create_response_401]"
    using run by (simp add: calls_since_def)
  show "Enter \<notin> set (calls_since s0 (snd (snd (handle self request s0))))"
    using made by simp
  show "Distribute \<notin> set (calls_since s0 (snd (snd (handle self request s0))))"
    using made by simp
qed

theorem C1_witness:
  "fst (handle (example_server unknown_user) (example_request ''GET'' [''_'']) start) =
     Inr \<lparr>status = 401, content = [],
          headers = [(text_of ''WWW-Authenticate'', text_of ''Basic'')]\<rparr> \<and>
   calls_since start
     (snd (snd (handle (example_server unknown_user) (example_request ''GET'' [''_'']) start))) =
     [Pick_out_user, Create_response_401]"
proof -
  let ?self = "example_server unknown_user"
  let ?request = "example_request ''GET'' [''_'']"
  have failed: "pick_out_user (dav_auth ?self) ?request (world start) =
      (Inr (None, text_of ''no such user''), 0)"
    by (simp add: example_server_def start_def unknown_user_def example_request_def
        DAVMethod_GET_def)
  have built: "fst (create_response_401 (dav_auth ?self) (?request\<lparr>user := None\<rparr>)
        (text_of ''no such user'') 0) =
      Inr \<lparr>status = 401, content = [],
           headers = [(text_of ''WWW-Authenticate'', text_of ''Basic'')]\<rparr>"
    by (simp add: example_server_def)
  from C1_credential_check_first [of ?self ?request start] failed built
  show ?thesis by simp
qed

text \<open>
  C2, as the claim states it, fails: it speaks of every authenticated request whose
  first path segment is \<open>_\<close>, but line 77 sends only \<open>GET\<close> requests to the
  administrative page. An authenticated \<open>PROPFIND\<close> on \<open>/_\<close> goes to the WebDAV
  dispatcher, and the page is never asked.
\<close>

theorem C2_counterexample:
  "handle (example_server known_user) (example_request ''PROPFIND'' [''_'']) start =
     (Inr \<lparr>status = 207, content = [], headers = []\<rparr>,
      (example_request ''PROPFIND'' [''_''])\<lparr>user := Some alice\<rparr>,
      \<lparr>world = 0, calls = [Pick_out_user, Distribute]\<rparr>) \<and>
   parts (src_path (example_request ''PROPFIND'' [''_''])) = [text_of ''_''] \<and>
   Enter \<notin> set (calls (snd (snd
     (handle (example_server known_user) (example_request ''PROPFIND'' [''_'']) start))))"
  by (simp add: handle_def invoke_def admin_request_def example_server_def example_request_def
      start_def known_user_def DAVMethod_GET_def text_of_def)

text \<open>
  C2, amended. For every authenticated \<open>GET\<close> request whose path has at least one
  segment and whose first segment is \<open>_\<close>, the request is handed to the
  administrative page (\<open>enter\<close>, the only call after the credential check), and when
  the page returns a status and a text, the response has exactly that status and,
  as its body, the UTF-8 encoding of that text, from which the text reads back
  unchanged.
\<close>

theorem C2_admin_page_verbatim:
  assumes "pick_out_user (dav_auth self) request (world s0) = (Inr (Some u, message), w1)"
    and "method' request = DAVMethod_GET"
    and "count (src_path request) \<ge> 1"
    and "parts (src_path request) = text_of ''_'' # rest"
    and "enter (web_page self) (request\<lparr>user := Some u\<rparr>) w1 = (Inr (st, data), w2)"
    and "encode_utf8 data = Inr body"
  shows "\<exists>response.
           fst (handle self request s0) = Inr response \<and>
           response = new_DAVResponse st body \<and>
           status response = st \<and>
           content response = body \<and>
           decode_utf8 (content response) = Some data \<and>
           calls_since s0 (snd (snd (handle self request s0))) = [Pick_out_user, Enter]"
proof -
  have "admin_request request = Inr True"
    using assms(2-4) by (simp add: admin_request_def)
  from handle_admin [OF assms(1) this] assms(5,6)
  have "handle self request s0 =
      (Inr (new_DAVResponse st body), request\<lparr>user := Some u\<rparr>,
       \<lparr>world = w2, calls = calls s0 @ [Pick_out_user, Enter]\<rparr>)"
    by simp
  then show ?thesis
    using decode_encode_utf8 [OF assms(6)] by (simp add: new_DAVResponse_def calls_since_def)
qed

theorem C2_witness:
  "\<exists>response.
     fst (handle (example_server known_user) (example_request ''GET'' [''_'', ''static'']) start) =
       Inr response \<and>
     response = new_DAVResponse 200 [111, 107, 32, 226, 130, 172] \<and>
     status response = 200 \<and>
     content response = [111, 107, 32, 226, 130, 172] \<and>
     decode_utf8 (content response) = Some page_text \<and>
     calls_since start
       (snd (snd (handle (example_server known_user) (example_request ''GET'' [''_'', ''static''])
          start))) = [Pick_out_user, Enter]"
proof -
  let ?self = "example_server known_user"
  let ?request = "example_request ''GET'' [''_'', ''static'']"
  have a: "pick_out_user (dav_auth ?self) ?request (world start) = (Inr (Some alice, []), 0)"
    by (simp add: example_server_def start_def known_user_def)
  have b: "method' ?request = DAVMethod_GET"
    by (simp add: example_request_def DAVMethod_GET_def)
  have c: "count (src_path ?request) \<ge> 1"
    by (simp add: example_request_def)
  have d: "parts (src_path ?request) = text_of ''_'' # [text_of ''static'']"
    by (simp add: example_request_def)
  have e: "enter (web_page ?self) (?request\<lparr>user := Some alice\<rparr>) 0 = (Inr (200, page_text), 0)"
    by (simp add: example_server_def)
  have f: "encode_utf8 page_text = Inr [111, 107, 32, 226, 130, 172]"
    by (simp add: page_text_def text_of_def utf8_char_def)
  from C2_admin_page_verbatim [OF a b c d e f] show ?thesis .
qed

text \<open>
  C3. If the construction of the WebDAV engine raises \<open>ProviderInitException\<close> at
  startup, the constructor of \<open>Server\<close> ends in \<open>sys.exit()\<close>: it raises \<open>SystemExit\<close>
  and yields no \<open>Server\<close>, so there is nothing that could serve a request. The only
  calls made are the two constructors; no response is sent for the failure.
\<close>

theorem C3_provider_failure_exits:
  assumes "new_DAVAuth m config (world s0) = (Inr auth, w1)"
    and "new_WebDAV m config w1 = (Inl (ProviderInitException msg), w2)"
  shows "Server_init m config s0 =
           (Inl SystemExit, \<lparr>world = w2, calls = calls s0 @ [DAVAuth_new, WebDAV_new]\<rparr>) \<and>
         (\<forall>response.
            Send_in_one_call response \<notin> set (calls_since s0 (snd (Server_init m config s0))))"
  using assms by (simp add: Server_init_def invoke_def calls_since_def)

theorem C3_witness:
  "Server_init example_constructors () start =
     (Inl SystemExit, \<lparr>world = 1, calls = [DAVAuth_new, WebDAV_new]\<rparr>) \<and>
   (\<forall>response.
      Send_in_one_call response \<notin>
        set (calls_since start (snd (Server_init example_constructors () start))))"
proof -
  have a: "new_DAVAuth example_constructors () (world start) =
      (Inr (dav_auth (example_server unknown_user)), 0)"
    by (simp add: example_constructors_def start_def)
  have b: "new_WebDAV example_constructors () 0 =
      (Inl (ProviderInitException (text_of ''no root'')), 1)"
    by (simp add: example_constructors_def)
  from C3_provider_failure_exits [OF a b] show ?thesis
    by (simp add: start_def calls_since_def)
qed

text \<open>
  C4. With the 401 response built as the spec describes, every response to a request
  that fails authentication has status 401 and carries two \<open>WWW-Authenticate\<close>
  entries, the challenge of the plaintext-equivalent scheme and the challenge of the
  nonce-challenge scheme, both for the nonce just issued.
\<close>

theorem C4_challenge_for_each_scheme:
  assumes "create_response_401 (dav_auth self) = spec_create_response_401 ch"
    and "pick_out_user (dav_auth self) request (world s0) = (Inr (None, message), w1)"
  shows "\<exists>response.
           fst (handle self request s0) = Inr response \<and>
           status response = 401 \<and>
           map fst (headers response) =
             [text_of ''WWW-Authenticate'', text_of ''WWW-Authenticate''] \<and>
           map snd (headers response) =
             [challenge ch Plaintext_equivalent (fst (issue_nonce ch w1)),
              challenge ch Nonce_challenge (fst (issue_nonce ch w1))]"
  using handle_auth_failed [OF assms(2)] assms(1)
  by (simp add: spec_create_response_401_def supported_schemes_def split: prod.splits)

theorem C4_witness:
  "\<exists>response.
     fst (handle example_spec_server (example_request ''PUT'' [''a'']) start) = Inr response \<and>
     status response = 401 \<and>
     map fst (headers response) = [text_of ''WWW-Authenticate'', text_of ''WWW-Authenticate''] \<and>
     map snd (headers response) = [text_of ''Basic'', text_of ''Digest '' @ [0]]"
proof -
  let ?self = "example_spec_server"
  let ?request = "example_request ''PUT'' [''a'']"
  have a: "create_response_401 (dav_auth ?self) = spec_create_response_401 example_challenger"
    by (simp add: example_spec_server_def)
  have b: "pick_out_user (dav_auth ?self) ?request (world start) =
      (Inr (None, text_of ''nonce was used before''), 0)"
    by (simp add: example_spec_server_def example_server_def start_def unknown_user_def
        example_request_def DAVMethod_GET_def text_of_def)
  from C4_challenge_for_each_scheme [OF a b] show ?thesis
    by (simp add: example_challenger_def)
qed

text \<open>
  C5. With the 401 response built as the spec describes, two requests that fail
  authentication, whatever the two requests and whatever the two messages that name
  the causes, get the same response whenever the nonce issued to them is the same:
  nothing of the cause reaches the client.
\<close>

theorem C5_cause_not_revealed:
  assumes "create_response_401 (dav_auth self) = spec_create_response_401 ch"
    and "pick_out_user (dav_auth self) request1 (world s1) = (Inr (None, message1), w1)"
    and "pick_out_user (dav_auth self) request2 (world s2) = (Inr (None, message2), w2)"
    and "fst (issue_nonce ch w1) = fst (issue_nonce ch w2)"
  shows "fst (handle self request1 s1) = fst (handle self request2 s2)"
  using handle_auth_failed [OF assms(2)] handle_auth_failed [OF assms(3)] assms(1,4)
  by (simp add: spec_create_response_401_def split: prod.splits)

theorem C5_witness:
  "snd (unknown_user (example_request ''GET'' [''a''])) \<noteq>
     snd (unknown_user (example_request ''PUT'' [''b''])) \<and>
   fst (handle example_spec_server (example_request ''GET'' [''a'']) start) =
     fst (handle example_spec_server (example_request ''PUT'' [''b'']) start)"
proof -
  let ?self = "example_spec_server"
  have a: "create_response_401 (dav_auth ?self) = spec_create_response_401 example_challenger"
    by (simp add: example_spec_server_def)
  have b: "pick_out_user (dav_auth ?self) (example_request ''GET'' [''a'']) (world start) =
      (Inr (None, text_of ''no such user''), 0)"
    by (simp add: example_spec_server_def example_server_def start_def unknown_user_def
        example_request_def DAVMethod_GET_def)
  have c: "pick_out_user (dav_auth ?self) (example_request ''PUT'' [''b'']) (world start) =
      (Inr (None, text_of ''nonce was used before''), 0)"
    by (simp add: example_spec_server_def example_server_def start_def unknown_user_def
        example_request_def DAVMethod_GET_def text_of_def)
  have d: "fst (issue_nonce example_challenger 0) = fst (issue_nonce example_challenger 0)"
    by simp
  have e: "snd (unknown_user (example_request ''GET'' [''a''])) \<noteq>
      snd (unknown_user (example_request ''PUT'' [''b'']))"
    by (simp add: unknown_user_def example_request_def DAVMethod_GET_def text_of_def)
  from C5_cause_not_revealed [OF a b c d] e show ?thesis by simp
qed

text \<open>
  C6, as the claim states it, fails: \<open>handle\<close> has no \<open>try\<close>, so a stage that fails by
  raising is not turned into an error response. With a WebDAV dispatcher that raises,
  an authenticated \<open>PUT\<close> on a well-formed path leaves \<open>handle\<close> as that exception and
  gets no response.
\<close>

theorem C6_counterexample:
  "path_wf (src_path (example_request ''PUT'' [''a.txt''])) \<and>
   handle failing_dav_server (example_request ''PUT'' [''a.txt'']) start =
     (Inl (OtherException (text_of ''disk full'')),
      (example_request ''PUT'' [''a.txt''])\<lparr>user := Some alice\<rparr>,
      \<lparr>world = 0, calls = [Pick_out_user, Distribute]\<rparr>)"
  by (simp add: handle_def invoke_def admin_request_def failing_dav_server_def
      example_server_def example_request_def start_def known_user_def DAVMethod_GET_def
      text_of_def path_wf_def)

text \<open>
  C6, amended. For every request the calls of \<open>handle\<close> are the credential check
  alone or followed by exactly one of the 401 response, the administrative page and
  the WebDAV dispatcher: each stage is passed at most once. When the collaborators
  return, the page text can be encoded and the path is well formed, the request gets
  exactly one response, and a failed credential check (no user) goes straight to the
  401 response. \<open>handle\<close> has no handler: an exception raised by the credential
  check, by the builder of the 401 response, by the administrative page or by the
  WebDAV dispatcher leaves \<open>handle\<close> as it is.
\<close>

theorem C6_handle_stages:
  "calls_since s0 (snd (snd (handle self request s0))) \<in>
     {[Pick_out_user], [Pick_out_user, Create_response_401], [Pick_out_user, Enter],
      [Pick_out_user, Distribute]} \<and>
   (collaborators_return self \<and> path_wf (src_path request) \<longrightarrow>
      (\<exists>response request' s'.
         handle self request s0 = (Inr response, request', s') \<and>
         (calls_since s0 s' = [Pick_out_user, Create_response_401] \<and> user request' = None
          \<or> calls_since s0 s' = [Pick_out_user, Enter] \<and> user request' \<noteq> None
          \<or> calls_since s0 s' = [Pick_out_user, Distribute] \<and> user request' \<noteq> None))) \<and>
   (\<forall>e w1.
      pick_out_user (dav_auth self) request (world s0) = (Inl e, w1) \<longrightarrow>
      fst (handle self request s0) = Inl e) \<and>
   (\<forall>message w1.
      pick_out_user (dav_auth self) request (world s0) = (Inr (None, message), w1) \<longrightarrow>
      fst (handle self request s0) =
        fst (create_response_401 (dav_auth self) (request\<lparr>user := None\<rparr>) message w1)) \<and>
   (\<forall>u message w1 e w2.
      pick_out_user (dav_auth self) request (world s0) = (Inr (Some u, message), w1) \<and>
      admin_request request = Inr True \<and>
      enter (web_page self) (request\<lparr>user := Some u\<rparr>) w1 = (Inl e, w2) \<longrightarrow>
      fst (handle self request s0) = Inl e) \<and>
   (\<forall>u message w1.
      pick_out_user (dav_auth self) request (world s0) = (Inr (Some u, message), w1) \<and>
      admin_request request = Inr False \<longrightarrow>
      fst (handle self request s0) =
        fst (distribute (web_dav self) (request\<lparr>user := Some u\<rparr>) w1))"
proof (intro conjI impI allI)
  show "calls_since s0 (snd (snd (handle self request s0))) \<in>
     {[Pick_out_user], [Pick_out_user, Create_response_401], [Pick_out_user, Enter],
      [Pick_out_user, Distribute]}"
    by (rule handle_runs)
next
  assume "collaborators_return self \<and> path_wf (src_path request)"
  then have returning: "collaborators_return self" and wf: "path_wf (src_path request)"
    by simp_all
  obtain u message w1 where
    picked: "pick_out_user (dav_auth self) request (world s0) = (Inr (u, message), w1)"
    using returning unfolding collaborators_return_def
    by (metis fst_conv surj_pair)
  show "\<exists>response request' s'.
         handle self request s0 = (Inr response, request', s') \<and>
         (calls_since s0 s' = [Pick_out_user, Create_response_401] \<and> user request' = None
          \<or> calls_since s0 s' = [Pick_out_user, Enter] \<and> user request' \<noteq> None
          \<or> calls_since s0 s' = [Pick_out_user, Distribute] \<and> user request' \<noteq> None)"
  proof (cases u)
    case None
    obtain response w2 where
      "create_response_401 (dav_auth self) (request\<lparr>user := None\<rparr>) message w1 = (Inr response, w2)"
      using returning unfolding collaborators_return_def
      by (metis fst_conv surj_pair)
    with handle_auth_failed [OF picked [unfolded None]] show ?thesis
      by (simp add: calls_since_def)
  next
    case (Some v)
    obtain b where route: "admin_request request = Inr b"
      using admin_request_wf [OF wf] by blast
    show ?thesis
    proof (cases b)
      case True
      obtain st data body w2 where
        "enter (web_page self) (request\<lparr>user := Some v\<rparr>) w1 = (Inr (st, data), w2)"
        "encode_utf8 data = Inr body"
        using returning unfolding collaborators_return_def
        by (metis fst_conv surj_pair)
      moreover have "admin_request request = Inr True"
        using route True by simp
      ultimately show ?thesis
        using handle_admin [OF picked [unfolded Some]] by (simp add: calls_since_def)
    next
      case False
      obtain response w2 where
        "distribute (web_dav self) (request\<lparr>user := Some v\<rparr>) w1 = (Inr response, w2)"
        using returning unfolding collaborators_return_def
        by (metis fst_conv surj_pair)
      moreover have "admin_request request = Inr False"
        using route False by simp
      ultimately show ?thesis
        using handle_dav [OF picked [unfolded Some]] by (simp add: calls_since_def)
    qed
  qed
next
  fix e w1
  assume "pick_out_user (dav_auth self) request (world s0) = (Inl e, w1)"
  from handle_auth_raised [OF this] show "fst (handle self request s0) = Inl e"
    by simp
next
  fix message w1
  assume "pick_out_user (dav_auth self) request (world s0) = (Inr (None, message), w1)"
  from handle_auth_failed [OF this]
  show "fst (handle self request s0) =
      fst (create_response_401 (dav_auth self) (request\<lparr>user := None\<rparr>) message w1)"
    by (simp split: prod.splits)
next
  fix u message w1 e w2
  assume "pick_out_user (dav_auth self) request (world s0) = (Inr (Some u, message), w1) \<and>
      admin_request request = Inr True \<and>
      enter (web_page self) (request\<lparr>user := Some u\<rparr>) w1 = (Inl e, w2)"
  then have picked: "pick_out_user (dav_auth self) request (world s0) = (Inr (Some u, message), w1)"
    and route: "admin_request request = Inr True"
    and raised: "enter (web_page self) (request\<lparr>user := Some u\<rparr>) w1 = (Inl e, w2)"
    by simp_all
  from handle_admin [OF picked route] raised show "fst (handle self request s0) = Inl e"
    by simp
next
  fix u message w1
  assume "pick_out_user (dav_auth self) request (world s0) = (Inr (Some u, message), w1) \<and>
      admin_request request = Inr False"
  then have picked: "pick_out_user (dav_auth self) request (world s0) = (Inr (Some u, message), w1)"
    and route: "admin_request request = Inr False"
    by simp_all
  from handle_dav [OF picked route]
  show "fst (handle self request s0) =
      fst (distribute (web_dav self) (request\<lparr>user := Some u\<rparr>) w1)"
    by (simp split: prod.splits)
qed

theorem C6_witness:
  "collaborators_return (example_server known_user) \<and>
   path_wf (src_path (example_request ''DELETE'' [''docs'', ''a.txt''])) \<and>
   (\<exists>response request' s'.
      handle (example_server known_user) (example_request ''DELETE'' [''docs'', ''a.txt'']) start =
        (Inr response, request', s') \<and>
      (calls_since start s' = [Pick_out_user, Create_response_401] \<and> user request' = None
       \<or> calls_since start s' = [Pick_out_user, Enter] \<and> user request' \<noteq> None
       \<or> calls_since start s' = [Pick_out_user, Distribute] \<and> user request' \<noteq> None))"
proof -
  have a: "collaborators_return (example_server known_user)"
    by (simp add: collaborators_return_def example_server_def page_text_def text_of_def
        utf8_char_def)
  have b: "path_wf (src_path (example_request ''DELETE'' [''docs'', ''a.txt'']))"
    by (simp add: path_wf_def example_request_def)
  from C6_handle_stages [of start "example_server known_user"
      "example_request ''DELETE'' [''docs'', ''a.txt'']"] a b
  show ?thesis by blast
qed







text \<open>
  C9. The administrative route is taken only for \<open>GET\<close>: an authenticated request
  whose method is not \<open>GET\<close> is dispatched to the WebDAV engine whatever its path, a
  first segment \<open>_\<close> included; \<open>handle\<close> answers with what \<open>distribute\<close> answers, and the
  administrative page is not called.
\<close>

theorem C9_admin_route_only_for_GET:
  assumes "pick_out_user (dav_auth self) request (world s0) = (Inr (Some u, message), w1)"
    and "method' request \<noteq> DAVMethod_GET"
  shows "fst (handle self request s0) =
           fst (distribute (web_dav self) (request\<lparr>user := Some u\<rparr>) w1) \<and>
         calls_since s0 (snd (snd (handle self request s0))) = [Pick_out_user, Distribute] \<and>
         Enter \<notin> set (calls_since s0 (snd (snd (handle self request s0))))"
proof -
  have "admin_request request = Inr False"
    using assms(2) by (simp add: admin_request_def)
  from handle_dav [OF assms(1) this] show ?thesis
    by (simp add: calls_since_def split: prod.splits)
qed

theorem C9_witness:
  "parts (src_path (example_request ''PUT'' [''_'', ''x''])) = [text_of ''_'', text_of ''x''] \<and>
   fst (handle (example_server known_user) (example_request ''PUT'' [''_'', ''x'']) start) =
     Inr \<lparr>status = 207, content = [], headers = []\<rparr> \<and>
   calls_since start
     (snd (snd (handle (example_server known_user) (example_request ''PUT'' [''_'', ''x'']) start))) =
     [Pick_out_user, Distribute]"
proof -
  let ?self = "example_server known_user"
  let ?request = "example_request ''PUT'' [''_'', ''x'']"
  have a: "pick_out_user (dav_auth ?self) ?request (world start) = (Inr (Some alice, []), 0)"
    by (simp add: example_server_def start_def known_user_def)
  have b: "method' ?request \<noteq> DAVMethod_GET"
    by (simp add: example_request_def DAVMethod_GET_def text_of_def)
  from C9_admin_route_only_for_GET [OF a b] show ?thesis
    by (simp add: example_server_def example_request_def)
qed

end
